theory Spec2Isabelle
  imports Main "HOL-Library.Word"
begin

section \<open>Data model of chengji.c\<close>

text \<open>
  The enumeration \<^verbatim>\<open>typedef enum { A, B, C, D, E } grdle;\<close> of lines 3-10.
\<close>

datatype grdle = A | B | C | D | E

text \<open>
  The parameter of \<^verbatim>\<open>getnum\<close> and the local \<^verbatim>\<open>i\<close> of \<^verbatim>\<open>main\<close> are of type
  \<^verbatim>\<open>int\<close>: a 32-bit two's complement value, read through \<open>sint\<close> wherever the code
  compares it.
\<close>

type_synonym c_int = "32 word"

text \<open>
  The value the compiler gives each enumerator (the first is 0, each next one more);
  it is also the position of the label in the order A, B, C, D, E.
\<close>

fun grdle_value :: "grdle \<Rightarrow> nat" where
  "grdle_value A = 0"
| "grdle_value B = 1"
| "grdle_value C = 2"
| "grdle_value D = 3"
| "grdle_value E = 4"

text \<open>The identifier of each enumerator, as one character.\<close>

fun grdle_name :: "grdle \<Rightarrow> char" where
  "grdle_name A = CHR ''A''"
| "grdle_name B = CHR ''B''"
| "grdle_name C = CHR ''C''"
| "grdle_name D = CHR ''D''"
| "grdle_name E = CHR ''E''"

section \<open>The classifier\<close>

text \<open>
  \<^verbatim>\<open>getnum\<close>, lines 12-34: the cascade of \<^verbatim>\<open>if\<close> / \<^verbatim>\<open>else if\<close> with both bounds of
  each band, as the source writes them.
\<close>

definition getnum :: "c_int \<Rightarrow> grdle" where
  "getnum num =
     (if 90 \<le> sint num then A
      else if 80 \<le> sint num \<and> sint num < 90 then B
      else if 70 \<le> sint num \<and> sint num < 80 then C
      else if 60 \<le> sint num \<and> sint num < 70 then D
      else E)"

text \<open>
  The cascade that tests lower bounds only, written from the statement it is compared
  with: 90 or more gives A, else 80 or more gives B, else 70 or more gives C, else 60 or
  more gives D, else E.
\<close>

definition getnum_lower_bounds_only :: "c_int \<Rightarrow> grdle" where
  "getnum_lower_bounds_only num =
     (if 90 \<le> sint num then A
      else if 80 \<le> sint num then B
      else if 70 \<le> sint num then C
      else if 60 \<le> sint num then D
      else E)"

subsection \<open>The control flow of the classifier, one comparison at a time\<close>

text \<open>
  The seven comparisons of the body, named by their source line; \<^verbatim>\<open>&&\<close> evaluates its
  right operand only when the left one holds. A step evaluates one comparison and either
  moves to the next one or reaches a \<^verbatim>\<open>return\<close>.
\<close>

datatype getnum_pc =
    L14_ge90
  | L18_ge80 | L18_lt90
  | L22_ge70 | L22_lt80
  | L26_ge60 | L26_lt70

fun getnum_step :: "c_int \<Rightarrow> getnum_pc \<Rightarrow> getnum_pc + grdle" where
  "getnum_step num L14_ge90 = (if 90 \<le> sint num then Inr A else Inl L18_ge80)"
| "getnum_step num L18_ge80 = (if 80 \<le> sint num then Inl L18_lt90 else Inl L22_ge70)"
| "getnum_step num L18_lt90 = (if sint num < 90 then Inr B else Inl L22_ge70)"
| "getnum_step num L22_ge70 = (if 70 \<le> sint num then Inl L22_lt80 else Inl L26_ge60)"
| "getnum_step num L22_lt80 = (if sint num < 80 then Inr C else Inl L26_ge60)"
| "getnum_step num L26_ge60 = (if 60 \<le> sint num then Inl L26_lt70 else Inr E)"
| "getnum_step num L26_lt70 = (if sint num < 70 then Inr D else Inr E)"

text \<open>
  Running the body for at most \<open>fuel\<close> comparisons: \<open>None\<close> when no \<^verbatim>\<open>return\<close> was
  reached within them.
\<close>

fun getnum_run :: "nat \<Rightarrow> c_int \<Rightarrow> getnum_pc \<Rightarrow> grdle option" where
  "getnum_run 0 num pc = None"
| "getnum_run (Suc fuel) num pc =
     (case getnum_step num pc of
        Inr g \<Rightarrow> Some g
      | Inl pc' \<Rightarrow> getnum_run fuel num pc')"

section \<open>The program\<close>

text \<open>
  What the program can change outside its own variables: the bytes written to standard
  output so far.
\<close>

record world =
  stdout :: string

text \<open>
  The string literal of line 39, as the 18 bytes the source file holds between the
  quotes.
\<close>

definition prompt :: string where
  "prompt =
     [CHR 0xE8, CHR 0xAF, CHR 0xB7, CHR 0xE8, CHR 0xBE, CHR 0x93,
      CHR 0xE5, CHR 0x85, CHR 0xA5, CHR 0xE6, CHR 0x88, CHR 0x90,
      CHR 0xE7, CHR 0xBB, CHR 0xA9, CHR 0xEF, CHR 0xBC, CHR 0x9A]"

text \<open>
  \<^verbatim>\<open>printf\<close> with a format that holds no conversion: the bytes are appended to
  standard output. Its return value is not used by the program.
\<close>

definition printf :: "string \<Rightarrow> world \<Rightarrow> world" where
  "printf fmt w = w\<lparr>stdout := stdout w @ fmt\<rparr>"

text \<open>
  \<^verbatim>\<open>scanf("%d", &i)\<close>: the library is not part of the program, so what it converts
  from standard input is a parameter: \<open>Some v\<close> when an integer was read and stored in
  \<^verbatim>\<open>i\<close>, \<open>None\<close> when nothing was converted, and then \<^verbatim>\<open>i\<close> keeps what it held.
  The result is the content of \<^verbatim>\<open>i\<close> after the call; the program ignores the return
  value of \<^verbatim>\<open>scanf\<close>.
\<close>

definition scanf_d :: "c_int option \<Rightarrow> c_int \<Rightarrow> c_int" where
  "scanf_d conv i = (case conv of Some v \<Rightarrow> v | None \<Rightarrow> i)"

text \<open>
  The call \<^verbatim>\<open>getnum(i)\<close> as a statement of the program: the body of \<^verbatim>\<open>getnum\<close>
  calls nothing and reads or writes no object besides its parameter, so the world is
  handed back as it was.
\<close>

definition getnum_call :: "c_int \<Rightarrow> world \<Rightarrow> grdle \<times> world" where
  "getnum_call num w = (getnum num, w)"

text \<open>
  \<^verbatim>\<open>main\<close>, lines 36-60. \<open>conv\<close> is what \<^verbatim>\<open>scanf\<close> converts and \<open>i0\<close> the
  indeterminate content of the uninitialised local \<^verbatim>\<open>i\<close>. The result is the exit
  code and the world after the run.
\<close>

definition main :: "c_int option \<Rightarrow> c_int \<Rightarrow> world \<Rightarrow> c_int \<times> world" where
  "main conv i0 w =
     (let w1 = printf prompt w;
          i = scanf_d conv i0;
          (g, w2) = getnum_call i w1;
          w3 = (case g of
                  A \<Rightarrow> printf ''A'' w2
                | B \<Rightarrow> printf ''B'' w2
                | C \<Rightarrow> printf ''C'' w2
                | D \<Rightarrow> printf ''D'' w2
                | _ \<Rightarrow> printf ''E'' w2)
      in (0, w3))"

section \<open>Auxiliary facts\<close>

lemma getnum_cases:
  "getnum num = A \<and> 90 \<le> sint num
   \<or> getnum num = B \<and> 80 \<le> sint num \<and> sint num < 90
   \<or> getnum num = C \<and> 70 \<le> sint num \<and> sint num < 80
   \<or> getnum num = D \<and> 60 \<le> sint num \<and> sint num < 70
   \<or> getnum num = E \<and> sint num < 60"
  by (simp add: getnum_def)

text \<open>Five comparisons are enough to reach a \<^verbatim>\<open>return\<close> from the first one.\<close>

lemma getnum_run_five:
  "getnum_run (Suc (Suc (Suc (Suc (Suc k))))) num L14_ge90 = Some (getnum num)"
  by (simp add: getnum_def)

text \<open>A run that has returned returns the same label when it is allowed more steps.\<close>

lemma getnum_run_more_fuel:
  "getnum_run fuel num pc = Some g \<Longrightarrow> getnum_run (fuel + k) num pc = Some g"
proof (induction fuel arbitrary: pc)
  case 0
  then show ?case by simp
next
  case (Suc fuel)
  show ?case
  proof (cases "getnum_step num pc")
    case (Inl pc')
    with Suc.prems have "getnum_run fuel num pc' = Some g" by simp
    then have "getnum_run (fuel + k) num pc' = Some g" by (rule Suc.IH)
    with Inl show ?thesis by simp
  next
    case (Inr g')
    with Suc.prems show ?thesis by simp
  qed
qed

text \<open>Whatever the number of steps allowed, a run has not returned or has returned the
  label of the cascade.\<close>

lemma getnum_run_None_or_label:
  "getnum_run fuel num L14_ge90 = None
   \<or> getnum_run fuel num L14_ge90 = Some (getnum num)"
proof (cases "getnum_run fuel num L14_ge90")
  case None
  then show ?thesis by simp
next
  case (Some g)
  then have "getnum_run (fuel + 5) num L14_ge90 = Some g"
    by (rule getnum_run_more_fuel)
  moreover have "getnum_run (fuel + 5) num L14_ge90 = Some (getnum num)"
    using getnum_run_five [of fuel num] by (simp add: numeral_eq_Suc)
  ultimately have "g = getnum num" by simp
  with Some show ?thesis by simp
qed

section \<open>Properties of the classifier\<close>

text \<open>
  C3: at the literal boundary inputs 90, 89, 80, 79, 70, 69, 60, 59, -5 and 1000,
  \<^verbatim>\<open>getnum\<close> returns A, B, B, C, C, D, D, E, E and A.
\<close>

theorem getnum_boundaries:
  "getnum 90 = A \<and> getnum 89 = B \<and> getnum 80 = B \<and> getnum 79 = C \<and> getnum 70 = C
   \<and> getnum 69 = D \<and> getnum 60 = D \<and> getnum 59 = E \<and> getnum (- 5) = E
   \<and> getnum 1000 = A"
  by (simp add: getnum_def)

text \<open>
  C1: for every \<^verbatim>\<open>int\<close> value s, \<^verbatim>\<open>getnum\<close> returns the label of the band of the
  table that holds s: A from 90 up, B from 80 to 89, C from 70 to 79, D from 60 to 69
  and E below 60. The bands exclude one another, so the first match is the only one.
\<close>

theorem getnum_bands:
  "(90 \<le> sint num \<longrightarrow> getnum num = A)
   \<and> (80 \<le> sint num \<and> sint num < 90 \<longrightarrow> getnum num = B)
   \<and> (70 \<le> sint num \<and> sint num < 80 \<longrightarrow> getnum num = C)
   \<and> (60 \<le> sint num \<and> sint num < 70 \<longrightarrow> getnum num = D)
   \<and> (sint num < 60 \<longrightarrow> getnum num = E)"
  by (simp add: getnum_def)

theorem getnum_bands_witness:
  "(90 \<le> sint (95 :: c_int) \<and> getnum 95 = A)
   \<and> (80 \<le> sint (85 :: c_int) \<and> sint (85 :: c_int) < 90 \<and> getnum 85 = B)
   \<and> (70 \<le> sint (75 :: c_int) \<and> sint (75 :: c_int) < 80 \<and> getnum 75 = C)
   \<and> (60 \<le> sint (65 :: c_int) \<and> sint (65 :: c_int) < 70 \<and> getnum 65 = D)
   \<and> (sint (42 :: c_int) < 60 \<and> getnum 42 = E)"
  using getnum_bands [of 95] getnum_bands [of 85] getnum_bands [of 75]
    getnum_bands [of 65] getnum_bands [of 42]
  by simp

text \<open>
  C2: every score below 60, zero and the negative ones included, gets the lowest
  grade E.
\<close>

theorem getnum_below_60:
  "sint num < 60 \<Longrightarrow> getnum num = E"
  by (simp add: getnum_def)

theorem getnum_below_60_witness:
  "sint (0 :: c_int) < 60 \<and> getnum 0 = E
   \<and> sint (- 1 :: c_int) < 60 \<and> getnum (- 1) = E
   \<and> sint (- 2147483648 :: c_int) < 60 \<and> getnum (- 2147483648) = E"
proof -
  have z: "sint (0 :: c_int) < 60" by simp
  have m: "sint (- 1 :: c_int) < 60" by simp
  have l: "sint (- 2147483648 :: c_int) < 60" by simp
  show ?thesis
    using z m l getnum_below_60 [OF z] getnum_below_60 [OF m] getnum_below_60 [OF l]
    by simp
qed

text \<open>
  C4: \<^verbatim>\<open>getnum\<close> is total with no error outcome. For every \<^verbatim>\<open>int\<close> value there is
  exactly one label among A, B, C, D, E such that the body, run from its first
  comparison, returns it within five comparisons, no run of any length ends in another
  outcome than this label (a shorter run has only not yet returned), and it is the label
  the cascade computes.
\<close>

theorem getnum_returns_exactly_one_label:
  "\<exists>!g. g \<in> {A, B, C, D, E}
        \<and> getnum_run 5 num L14_ge90 = Some g
        \<and> (\<forall>fuel. getnum_run fuel num L14_ge90 = None
                     \<or> getnum_run fuel num L14_ge90 = Some g)
        \<and> getnum num = g"
proof (rule ex1I [of _ "getnum num"])
  have five: "getnum_run 5 num L14_ge90 = Some (getnum num)"
    using getnum_run_five [of 0 num] by (simp add: numeral_eq_Suc)
  have label: "getnum num \<in> {A, B, C, D, E}"
    by (cases "getnum num") simp_all
  have any: "\<forall>fuel. getnum_run fuel num L14_ge90 = None
                    \<or> getnum_run fuel num L14_ge90 = Some (getnum num)"
    by (simp add: getnum_run_None_or_label)
  show "getnum num \<in> {A, B, C, D, E}
        \<and> getnum_run 5 num L14_ge90 = Some (getnum num)
        \<and> (\<forall>fuel. getnum_run fuel num L14_ge90 = None
                     \<or> getnum_run fuel num L14_ge90 = Some (getnum num))
        \<and> getnum num = getnum num"
    using five label any by simp
next
  fix g
  assume "g \<in> {A, B, C, D, E}
        \<and> getnum_run 5 num L14_ge90 = Some g
        \<and> (\<forall>fuel. getnum_run fuel num L14_ge90 = None
                     \<or> getnum_run fuel num L14_ge90 = Some g)
        \<and> getnum num = g"
  then show "g = getnum num" by simp
qed

text \<open>
  C8: the body of \<^verbatim>\<open>getnum\<close> terminates for every \<^verbatim>\<open>int\<close> value: run from its first
  comparison it reaches a \<^verbatim>\<open>return\<close> after at most five of its seven comparisons,
  whatever more it is allowed, and the label returned is the one the cascade computes.
\<close>

theorem getnum_terminates:
  "getnum_run (5 + k) num L14_ge90 = Some (getnum num)"
proof -
  have s: "5 + k = Suc (Suc (Suc (Suc (Suc k))))" by simp
  show ?thesis
    unfolding s by (simp add: getnum_def)
qed

text \<open>
  C9: a lower score never yields a better grade: when s1 is at most s2, the position of
  the label of s1 in the order A, B, C, D, E is at least that of the label of s2.
\<close>

theorem getnum_antitone:
  "sint s1 \<le> sint s2 \<Longrightarrow> grdle_value (getnum s2) \<le> grdle_value (getnum s1)"
  using getnum_cases [of s1] getnum_cases [of s2]
  by (elim disjE conjE) simp_all

theorem getnum_antitone_witness:
  "sint (59 :: c_int) \<le> sint (90 :: c_int)
   \<and> grdle_value (getnum 90) \<le> grdle_value (getnum 59)
   \<and> sint (- 7 :: c_int) \<le> sint (75 :: c_int)
   \<and> grdle_value (getnum 75) \<le> grdle_value (getnum (- 7))"
proof -
  have a: "sint (59 :: c_int) \<le> sint (90 :: c_int)" by simp
  have b: "sint (- 7 :: c_int) \<le> sint (75 :: c_int)" by simp
  show ?thesis
    using a b getnum_antitone [OF a] getnum_antitone [OF b] by simp
qed

text \<open>
  C10: the upper-bound tests of the cascade are redundant: \<^verbatim>\<open>getnum\<close> returns, for
  every \<^verbatim>\<open>int\<close> value, what the cascade testing lower bounds only returns.
\<close>

theorem getnum_upper_bounds_redundant:
  "getnum num = getnum_lower_bounds_only num"
  by (simp add: getnum_def getnum_lower_bounds_only_def)

section \<open>Properties of the program\<close>

text \<open>
  C6: when an integer v is read from standard input, the run appends to standard output
  the prompt and then exactly one character, the name of the label \<^verbatim>\<open>getnum\<close>
  computes for v, which is one of A, B, C, D, E; nothing follows it.
\<close>

theorem main_output:
  "conv = Some v \<Longrightarrow>
     stdout (snd (main conv i0 w)) = stdout w @ prompt @ [grdle_name (getnum v)]
     \<and> grdle_name (getnum v) \<in> {CHR ''A'', CHR ''B'', CHR ''C'', CHR ''D'', CHR ''E''}"
  by (cases "getnum v")
     (simp_all add: main_def getnum_call_def scanf_d_def printf_def)

theorem main_output_witness:
  "stdout (snd (main (Some 85) 0 \<lparr>stdout = []\<rparr>)) = prompt @ ''B''
   \<and> grdle_name (getnum 85) = CHR ''B''"
proof -
  have g: "getnum 85 = B" by (simp add: getnum_def)
  show ?thesis
    using main_output [of "Some 85" 85 0 "\<lparr>stdout = []\<rparr>"] by (simp add: g)
qed

text \<open>
  C7: every run of \<^verbatim>\<open>main\<close> returns exit code 0, whether \<^verbatim>\<open>scanf\<close> converted an
  integer or not, and whatever the uninitialised \<^verbatim>\<open>i\<close> held.
\<close>

theorem main_exit_code:
  "fst (main conv i0 w) = 0"
  by (simp add: main_def Let_def split: prod.split)

end
